theory Spec2Isabelle
  imports Complex_Main
begin

section \<open>JavaScript values\<close>

text \<open>
  The client handles JSON payloads and plain objects. A value is one of the JSON kinds
  or \<open>undefined\<close>. Numbers are modelled by their real value (every finite double is
  one); the code below only tests numbers for zero and passes them on. Strings are lists
  of code units, restricted to the code units below 256. An object is the list of its own
  properties; a lookup takes the first entry of a key.
\<close>

datatype jsval =
    JUndefined
  | JNull
  | JBool bool
  | JNum real
  | JStr string
  | JArr "jsval list"
  | JObj "(string \<times> jsval) list"

datatype js_error =
    TypeError
  | SyntaxError
  | NetworkError
  | Error jsval

text \<open>ToBoolean: \<open>undefined\<close>, \<open>null\<close>, \<open>false\<close>, \<open>0\<close> and \<open>''\<close> are falsy.\<close>

fun truthy :: "jsval \<Rightarrow> bool" where
  "truthy JUndefined = False"
| "truthy JNull = False"
| "truthy (JBool b) = b"
| "truthy (JNum n) = (n \<noteq> 0)"
| "truthy (JStr s) = (s \<noteq> [])"
| "truthy (JArr xs) = True"
| "truthy (JObj kvs) = True"

text \<open>\<open>a || b\<close> on values that are already evaluated.\<close>

definition js_or :: "jsval \<Rightarrow> jsval \<Rightarrow> jsval" where
  "js_or a b = (if truthy a then a else b)"

text \<open>
  \<open>v.k\<close> for a property name \<open>k\<close> that no prototype defines (all names read below are
  such): the own property of an object, \<open>undefined\<close> on any other value that can be
  read, and a TypeError on \<open>undefined\<close> and \<open>null\<close>.
\<close>

fun js_prop :: "jsval \<Rightarrow> string \<Rightarrow> jsval" where
  "js_prop (JObj kvs) k = (case map_of kvs k of None \<Rightarrow> JUndefined | Some v \<Rightarrow> v)"
| "js_prop v k = JUndefined"

definition get :: "jsval \<Rightarrow> string \<Rightarrow> js_error + jsval" where
  "get v k = (if v = JUndefined \<or> v = JNull then Inl TypeError else Inr (js_prop v k))"

text \<open>Sequencing of computations that may throw.\<close>

definition bnd :: "js_error + 'a \<Rightarrow> ('a \<Rightarrow> js_error + 'b) \<Rightarrow> js_error + 'b" where
  "bnd r f = (case r of Inl e \<Rightarrow> Inl e | Inr x \<Rightarrow> f x)"

text \<open>\<open>v.k || d\<close>: reading \<open>v.k\<close> may throw, the default is a literal.\<close>

definition get_or :: "jsval \<Rightarrow> string \<Rightarrow> jsval \<Rightarrow> js_error + jsval" where
  "get_or v k d = bnd (get v k) (\<lambda>x. Inr (js_or x d))"

text \<open>\<open>a || b\<close> where both operands may throw; \<open>b\<close> only runs when \<open>a\<close> is falsy.\<close>

definition or_else :: "js_error + jsval \<Rightarrow> js_error + jsval \<Rightarrow> js_error + jsval" where
  "or_else a b = bnd a (\<lambda>x. if truthy x then Inr x else b)"

section \<open>Metrics normalizer (reportsService.js)\<close>

text \<open>
  \<open>extractDashboardMetrics(analysisData, reportType)\<close>: the object literals are built
  property by property, in the order of the source.
\<close>

definition extractDashboardMetrics :: "jsval \<Rightarrow> string \<Rightarrow> js_error + jsval" where
  "extractDashboardMetrics analysisData reportType =
     bnd (get_or analysisData ''basic_metrics'' (JObj [])) (\<lambda>basic.
       if reportType = ''security'' then
         bnd (get_or basic ''total_security_actions'' (JNum 0)) (\<lambda>total_actions.
         bnd (get_or basic ''high_impact_actions'' (JNum 0)) (\<lambda>critical_issues.
         bnd (get_or analysisData ''security_score'' (JNum 0)) (\<lambda>security_score.
         bnd (get_or basic ''estimated_working_hours'' (JNum 0)) (\<lambda>working_hours.
         bnd (get_or basic ''risk_level'' (JStr ''Unknown'')) (\<lambda>risk_level.
           Inr (JObj [(''total_actions'', total_actions),
                      (''critical_issues'', critical_issues),
                      (''security_score'', security_score),
                      (''working_hours'', working_hours),
                      (''risk_level'', risk_level)]))))))
       else if reportType = ''performance'' then
         bnd (get_or basic ''total_performance_actions'' (JNum 0)) (\<lambda>total_actions.
         bnd (get_or basic ''high_impact_optimizations'' (JNum 0)) (\<lambda>critical_optimizations.
         bnd (get_or analysisData ''performance_score'' (JNum 100)) (\<lambda>performance_score.
         bnd (get_or basic ''estimated_performance_improvement'' (JNum 0)) (\<lambda>optimization_potential.
         bnd (get_or basic ''estimated_working_hours'' (JNum 0)) (\<lambda>working_hours.
           Inr (JObj [(''total_actions'', total_actions),
                      (''critical_optimizations'', critical_optimizations),
                      (''performance_score'', performance_score),
                      (''optimization_potential'', optimization_potential),
                      (''working_hours'', working_hours)]))))))
       else if reportType = ''cost'' then
         bnd (get_or basic ''total_cost_actions'' (JNum 0)) (\<lambda>total_actions.
         bnd (get_or basic ''estimated_monthly_savings'' (JNum 0)) (\<lambda>monthly_savings.
         bnd (get_or basic ''estimated_annual_savings'' (JNum 0)) (\<lambda>annual_savings.
         bnd (get_or basic ''estimated_working_hours'' (JNum 0)) (\<lambda>working_hours.
         bnd (get_or analysisData ''optimization_score'' (JNum 100)) (\<lambda>optimization_score.
           Inr (JObj [(''total_actions'', total_actions),
                      (''monthly_savings'', monthly_savings),
                      (''annual_savings'', annual_savings),
                      (''working_hours'', working_hours),
                      (''optimization_score'', optimization_score)]))))))
       else
         bnd (get_or basic ''total_actions'' (JNum 0)) (\<lambda>total_actions.
         bnd (get_or basic ''estimated_working_hours'' (JNum 0)) (\<lambda>working_hours.
           Inr (JObj [(''total_actions'', total_actions),
                      (''working_hours'', working_hours)]))))"

text \<open>Reading one property of a result that may be an exception.\<close>

definition field :: "js_error + jsval \<Rightarrow> string \<Rightarrow> js_error + jsval" where
  "field r k = bnd r (\<lambda>m. get m k)"


section \<open>Validation gate (reportsService.js)\<close>

text \<open>
  \<open>String.prototype.trim\<close> removes white space and line terminators at both ends;
  among the code units below 256 these are 9 to 13, 32 and 160.
\<close>

definition is_js_whitespace :: "char \<Rightarrow> bool" where
  "is_js_whitespace c = ((of_char c :: nat) \<in> {9, 10, 11, 12, 13, 32, 160})"

definition js_trim :: "string \<Rightarrow> string" where
  "js_trim s = rev (dropWhile is_js_whitespace (rev (dropWhile is_js_whitespace s)))"

text \<open>\<open>v.trim()\<close>: only a string has the method; calling it on another value throws.\<close>

definition trim_call :: "jsval \<Rightarrow> js_error + string" where
  "trim_call v = (case v of JStr s \<Rightarrow> Inr (js_trim s) | _ \<Rightarrow> Inl TypeError)"

text \<open>\<open>xs.includes(v)\<close> for an array of strings.\<close>

definition js_includes :: "string list \<Rightarrow> jsval \<Rightarrow> bool" where
  "js_includes xs v = (case v of JStr s \<Rightarrow> s \<in> set xs | _ \<Rightarrow> False)"

definition title_error :: string where
  "title_error = ''El t'' @ [CHR 0xED] @ ''tulo debe tener al menos 3 caracteres''"

definition type_error :: string where
  "type_error = ''Tipo de reporte inv'' @ [CHR 0xE1] @ ''lido''"

definition file_error :: string where
  "file_error = ''Debe seleccionar un archivo CSV''"

record validation =
  isValid :: bool
  errors :: "string list"

text \<open>
  \<open>validateReportConfig(config)\<close>: the three checks run one after the other, each
  pushing its message onto \<open>errors\<close>.
\<close>

definition validateReportConfig :: "jsval \<Rightarrow> js_error + validation" where
  "validateReportConfig config =
     bnd (get config ''title'') (\<lambda>title.
     bnd (if \<not> truthy title then Inr True
          else bnd (trim_call title) (\<lambda>t. Inr (length t < 3))) (\<lambda>bad_title.
     let errors1 = (if bad_title then [] @ [title_error] else []) in
     bnd (get config ''type'') (\<lambda>type_v.
     let errors2 =
       (if \<not> truthy type_v \<or>
           \<not> js_includes [''comprehensive'', ''security'', ''performance'', ''cost''] type_v
        then errors1 @ [type_error] else errors1) in
     bnd (get config ''csvFileId'') (\<lambda>csvFileId.
     let errors3 = (if \<not> truthy csvFileId then errors2 @ [file_error] else errors2) in
     Inr \<lparr>isValid = (length errors3 = 0), errors = errors3\<rparr>))))"

section \<open>Report submission (services/api.js)\<close>

text \<open>
  \<open>apiService.createReport(reportData)\<close> posts \<open>JSON.stringify\<close> of an object
  literal; \<open>createReport_body\<close> is that object, the request body before serialisation.
\<close>

definition createReport_body :: "jsval \<Rightarrow> js_error + jsval" where
  "createReport_body reportData =
     bnd (get reportData ''title'') (\<lambda>title.
     bnd (get_or reportData ''description'' (JStr [])) (\<lambda>description.
     bnd (or_else (get reportData ''type'') (get reportData ''report_type'')) (\<lambda>report_type.
     bnd (or_else (get reportData ''csvFileId'') (get reportData ''csv_file'')) (\<lambda>csv_file.
     bnd (or_else (get reportData ''configuration'')
            (bnd (get_or reportData ''includeGraphics'' (JBool True)) (\<lambda>include_graphics.
             bnd (get_or reportData ''includeDetailedTables'' (JBool True)) (\<lambda>include_detailed_tables.
             bnd (get_or reportData ''includeRecommendations'' (JBool True)) (\<lambda>include_recommendations.
               Inr (JObj [(''include_graphics'', include_graphics),
                          (''include_detailed_tables'', include_detailed_tables),
                          (''include_recommendations'', include_recommendations)]))))))
       (\<lambda>configuration.
         Inr (JObj [(''title'', title),
                    (''description'', description),
                    (''report_type'', report_type),
                    (''csv_file'', csv_file),
                    (''configuration'', configuration)]))))))"

section \<open>Polling (reportsService.js)\<close>

datatype outcome = Resolved jsval | Rejected js_error

record poll_result =
  outcome :: outcome
  fetches :: nat
  updates :: "jsval list"

text \<open>
  \<open>pollReportStatus(reportId, onStatusUpdate, maxAttempts)\<close>. The backend is the
  function \<open>getReport\<close>: the result of the \<open>n\<close>-th call of \<open>this.getReport(reportId)\<close>,
  counted from 0, an exception (\<open>Inl\<close>) or the report. The callback, when one is
  given, may throw (\<open>Some e\<close>). \<open>checkStatus\<close> carries the counter \<open>attempts\<close> of the
  closure, the number \<open>n\<close> of fetches issued so far and the reports handed to the
  callback so far. The timers (3 s before the first poll, 5 s between polls) only order
  the polls and are left out.
\<close>

function checkStatus ::
  "(nat \<Rightarrow> js_error + jsval) \<Rightarrow> (jsval \<Rightarrow> js_error option) option \<Rightarrow> nat \<Rightarrow>
     nat \<Rightarrow> nat \<Rightarrow> jsval list \<Rightarrow> poll_result" where
  "checkStatus getReport onStatusUpdate maxAttempts attempts n ups =
     (case getReport n of
        Inl error \<Rightarrow> \<lparr>outcome = Rejected error, fetches = Suc n, updates = ups\<rparr>
      | Inr report \<Rightarrow>
          (let ups' = (case onStatusUpdate of None \<Rightarrow> ups | Some cb \<Rightarrow> ups @ [report]) in
           case (case onStatusUpdate of None \<Rightarrow> None | Some cb \<Rightarrow> cb report) of
             Some error \<Rightarrow> \<lparr>outcome = Rejected error, fetches = Suc n, updates = ups'\<rparr>
           | None \<Rightarrow>
               (case get report ''status'' of
                  Inl error \<Rightarrow> \<lparr>outcome = Rejected error, fetches = Suc n, updates = ups'\<rparr>
                | Inr st \<Rightarrow>
                    if st = JStr ''completed'' then
                      \<lparr>outcome = Resolved report, fetches = Suc n, updates = ups'\<rparr>
                    else if st = JStr ''failed'' then
                      \<lparr>outcome = Rejected (Error (js_or (js_prop report ''error_message'')
                                                    (JStr ''Report generation failed''))),
                       fetches = Suc n, updates = ups'\<rparr>
                    else if attempts \<ge> maxAttempts then
                      \<lparr>outcome = Rejected (Error
                          (JStr ''Polling timeout - report generation took too long'')),
                       fetches = Suc n, updates = ups'\<rparr>
                    else
                      checkStatus getReport onStatusUpdate maxAttempts
                        (Suc attempts) (Suc n) ups')))"
  by pat_completeness auto
termination
  by (relation "measure (\<lambda>(g, cb, maxAttempts, attempts, n, ups). maxAttempts - attempts)") auto

declare checkStatus.simps [simp del]

definition pollReportStatus ::
  "(nat \<Rightarrow> js_error + jsval) \<Rightarrow> (jsval \<Rightarrow> js_error option) option \<Rightarrow> nat \<Rightarrow> poll_result" where
  "pollReportStatus getReport onStatusUpdate maxAttempts =
     checkStatus getReport onStatusUpdate maxAttempts 0 0 []"

definition polling_timeout :: js_error where
  "polling_timeout = Error (JStr ''Polling timeout - report generation took too long'')"

section \<open>Transport (config/api.js)\<close>

text \<open>
  A response carries its status and its body, \<open>None\<close> when the body is not JSON;
  \<open>response.ok\<close> is the status range 200 to 299 and \<open>response.json()\<close> rejects on
  a body that does not parse.
\<close>

record response =
  status :: nat
  body :: "jsval option"

definition ok :: "response \<Rightarrow> bool" where
  "ok r = (200 \<le> status r \<and> status r \<le> 299)"

definition json :: "response \<Rightarrow> js_error + jsval" where
  "json r = (case body r of None \<Rightarrow> Inl SyntaxError | Some j \<Rightarrow> Inr j)"

text \<open>
  What the transport can change in the page: the two token stores and
  \<open>window.location.href\<close>. Console output is not modelled.
\<close>

record browser =
  localStorage :: "string \<rightharpoonup> string"
  sessionStorage :: "string \<rightharpoonup> string"
  location_href :: string

definition getItem :: "(string \<rightharpoonup> string) \<Rightarrow> string \<Rightarrow> string option" where
  "getItem store k = store k"

definition removeItem :: "(string \<rightharpoonup> string) \<Rightarrow> string \<Rightarrow> (string \<rightharpoonup> string)" where
  "removeItem store k = store(k := None)"

text \<open>\<open>a || b\<close> on the results of \<open>getItem\<close>: \<open>null\<close> and the empty string are falsy.\<close>

definition item_or :: "string option \<Rightarrow> string option \<Rightarrow> string option" where
  "item_or a b = (case a of None \<Rightarrow> b | Some t \<Rightarrow> if t = [] then b else Some t)"

record request =
  req_url :: string
  req_headers :: "string \<rightharpoonup> string"

definition DEFAULT_HEADERS :: "string \<rightharpoonup> string" where
  "DEFAULT_HEADERS = [''Content-Type'' \<mapsto> ''application/json'', ''Accept'' \<mapsto> ''application/json'']"

definition RETRY_ATTEMPTS :: nat where
  "RETRY_ATTEMPTS = 3"

definition RETRY_DELAY :: nat where
  "RETRY_DELAY = 1000"

definition RETRY_EXPONENTIAL :: bool where
  "RETRY_EXPONENTIAL = True"

definition session_expired :: js_error where
  "session_expired = Error (JStr (''Sesi'' @ [CHR 0xF3] @ ''n expirada''))"

text \<open>
  \<open>fetchWithAuth(url, options)\<close>. \<open>BASE_URL\<close> is computed once from the host name when
  the module loads and is a parameter here; \<open>fetch\<close> is the network, and of the options
  only the headers are kept.
\<close>

definition fetchWithAuth ::
  "string \<Rightarrow> (request \<Rightarrow> js_error + response) \<Rightarrow> string \<Rightarrow> (string \<rightharpoonup> string) \<Rightarrow> browser \<Rightarrow>
     (js_error + response) \<times> browser" where
  "fetchWithAuth BASE_URL fetch url options_headers b =
     (let token = item_or (getItem (localStorage b) ''access_token'')
                          (getItem (sessionStorage b) ''access_token'');
          fullUrl = (if take 4 url = ''http'' then url else BASE_URL @ url);
          config = \<lparr>req_url = fullUrl,
                    req_headers = DEFAULT_HEADERS ++ options_headers ++
                      (case token of None \<Rightarrow> Map.empty
                       | Some t \<Rightarrow> if t = [] then Map.empty
                                   else [''Authorization'' \<mapsto> ''Bearer '' @ t])\<rparr>
      in case fetch config of
           Inl error \<Rightarrow> (Inl error, b)
         | Inr response \<Rightarrow>
             if status response = 401 then
               (Inl session_expired,
                b\<lparr>localStorage :=
                     removeItem (removeItem (localStorage b) ''access_token'') ''refresh_token'',
                   sessionStorage :=
                     removeItem (removeItem (sessionStorage b) ''access_token'') ''refresh_token'',
                   location_href := ''/''\<rparr>)
             else (Inr response, b))"

definition session_expired_login :: js_error where
  "session_expired_login = Error (JStr (''Sesi'' @ [CHR 0xF3] @ ''n expirada. Por favor, inicia sesi''
       @ [CHR 0xF3] @ ''n nuevamente.''))"

text \<open>\<open>handleApiResponse(response)\<close>, with the \<open>switch\<close> on the status in source order.\<close>

definition handleApiResponse :: "response \<Rightarrow> browser \<Rightarrow> (js_error + jsval) \<times> browser" where
  "handleApiResponse response b =
     (if \<not> ok response then
        (let error = (case json response of
                        Inl e \<Rightarrow> JObj [(''detail'', JStr (''Error de conexi'' @ [CHR 0xF3] @
                                                     ''n con el servidor''))]
                      | Inr j \<Rightarrow> j)
         in if status response = 401 then
              (Inl session_expired_login,
               b\<lparr>localStorage :=
                    removeItem (removeItem (localStorage b) ''access_token'') ''refresh_token'',
                  sessionStorage :=
                    removeItem (removeItem (sessionStorage b) ''access_token'') ''refresh_token'',
                  location_href := ''/''\<rparr>)
            else if status response = 403 then
              (Inl (Error (JStr (''No tienes permisos para realizar esta acci'' @ [CHR 0xF3] @ ''n.''))), b)
            else if status response = 404 then
              (Inl (Error (JStr ''Recurso no encontrado.'')), b)
            else if status response = 413 then
              (Inl (Error (JStr (''El archivo es demasiado grande. M'' @ [CHR 0xE1] @ ''ximo 50MB.''))), b)
            else if status response = 422 then
              (Inl (Error (JStr (''Datos inv'' @ [CHR 0xE1] @ ''lidos. Verifica la informaci'' @
                                 [CHR 0xF3] @ ''n enviada.''))), b)
            else if status response = 429 then
              (Inl (Error (JStr ''Demasiadas solicitudes. Intenta nuevamente en unos minutos.'')), b)
            else if status response = 500 then
              (Inl (Error (JStr ''Error interno del servidor. Intenta nuevamente.'')), b)
            else
              (bnd (or_else (or_else (get error ''detail'') (get error ''message''))
                            (Inr (JStr ''Error desconocido'')))
                   (\<lambda>m. Inl (Error m)), b))
      else (json response, b))"

text \<open>
  The state \<open>fetchWithRetry\<close> runs in: the page, the number of calls of \<open>fetch\<close> issued
  so far, and the delays waited so far, in milliseconds.
\<close>

record world =
  page :: browser
  calls :: nat
  sleeps :: "nat list"

text \<open>
  \<open>fetchWithRetry(url, options, retryCount)\<close>. The same url and options go to every
  call of \<open>fetch\<close>, so the network is the function from the index of the call to its
  result. The \<open>try\<close> block covers both the call of \<open>fetch\<close> and
  \<open>handleApiResponse\<close>; the \<open>catch\<close> makes no difference between what they throw.
\<close>

function fetchWithRetry ::
  "(nat \<Rightarrow> js_error + response) \<Rightarrow> nat \<Rightarrow> world \<Rightarrow> (js_error + jsval) \<times> world" where
  "fetchWithRetry fetch retryCount w =
     (let tried = (case fetch (calls w) of
                     Inl error \<Rightarrow> (Inl error, page w)
                   | Inr response \<Rightarrow> handleApiResponse response (page w));
          w1 = w\<lparr>page := snd tried, calls := Suc (calls w)\<rparr>
      in case fst tried of
           Inr v \<Rightarrow> (Inr v, w1)
         | Inl error \<Rightarrow>
             if retryCount < RETRY_ATTEMPTS then
               (let delay = (if RETRY_EXPONENTIAL then RETRY_DELAY * 2 ^ retryCount
                             else RETRY_DELAY)
                in fetchWithRetry fetch (Suc retryCount) (w1\<lparr>sleeps := sleeps w1 @ [delay]\<rparr>))
             else (Inl error, w1))"
  by pat_completeness auto
termination
  by (relation "measure (\<lambda>(fetch, retryCount, w). RETRY_ATTEMPTS - retryCount)") auto

declare fetchWithRetry.simps [simp del]

section \<open>Batch metrics (EnhancedDashboard.jsx)\<close>

text \<open>
  The methods that the class \<open>ReportsService\<close> of reportsService.js defines, in source
  order. The instance the module exports has these and the string field \<open>baseURL\<close>,
  nothing else of its own.
\<close>

definition ReportsService_methods :: "string list" where
  "ReportsService_methods =
     [''getHeaders'', ''handleResponse'', ''getReports'', ''getReport'', ''createReport'',
      ''getReportStatus'', ''getReportHTML'', ''getReportPDFUrl'', ''deleteReport'',
      ''validateCSVForSpecializedAnalysis'', ''getAnalysisMetrics'', ''uploadCSVFile'',
      ''getUserCSVFiles'', ''getCSVFileAnalysis'', ''getDashboardStats'', ''getRecentActivity'',
      ''pollReportStatus'', ''getReportTypeConfig'', ''validateReportConfig'',
      ''formatAnalysisData'', ''extractDashboardMetrics'']"

text \<open>
  The exported instance as a table from a member name to what the method does when it is
  called with one string argument. What the methods do against the backend is the
  parameter \<open>impl\<close>; which names are methods is fixed by the class.
\<close>

definition reportsService ::
  "(string \<Rightarrow> string \<Rightarrow> js_error + jsval) \<Rightarrow> (string \<rightharpoonup> (string \<Rightarrow> js_error + jsval))" where
  "reportsService impl name =
     (if name \<in> set ReportsService_methods then Some (impl name) else None)"

text \<open>
  \<open>service.name(arg)\<close>: reading a member the object does not have gives
  \<open>undefined\<close>, and calling it throws a TypeError.
\<close>

definition method_call ::
  "(string \<rightharpoonup> (string \<Rightarrow> js_error + jsval)) \<Rightarrow> string \<Rightarrow> string \<Rightarrow> js_error + jsval" where
  "method_call service name arg =
     (case service name of None \<Rightarrow> Inl TypeError | Some f \<Rightarrow> f arg)"

text \<open>
  \<open>loadSpecializedStats\<close>: the loop over the three types, each in its own
  \<open>try\<close>/\<open>catch\<close> around \<open>await reportsService.getAnalyticsForType(type)\<close>; the
  result is the object handed to \<open>setSpecializedStats\<close>.
\<close>

definition loadSpecializedStats ::
  "(string \<rightharpoonup> (string \<Rightarrow> js_error + jsval)) \<Rightarrow> (string \<rightharpoonup> jsval)" where
  "loadSpecializedStats service =
     foldl (\<lambda>stats t.
              case method_call service ''getAnalyticsForType'' t of
                Inr typeStats \<Rightarrow> stats(t \<mapsto> typeStats)
              | Inl error \<Rightarrow> stats(t \<mapsto> JNull))
           Map.empty [''security'', ''performance'', ''cost'']"

section \<open>Concrete inputs and value shapes used in the statements\<close>

text \<open>A backend, or a callback, that answers every call alike.\<close>

definition every_call :: "'a \<Rightarrow> 'b \<Rightarrow> 'a" where
  "every_call r x = r"

text \<open>A caller's inclusion flag: a boolean, or not given.\<close>

definition flag_value :: "jsval \<Rightarrow> bool" where
  "flag_value v = (case v of JUndefined \<Rightarrow> True | JBool b \<Rightarrow> True | _ \<Rightarrow> False)"

definition flags_all_true :: jsval where
  "flags_all_true = JObj [(''include_graphics'', JBool True),
                          (''include_detailed_tables'', JBool True),
                          (''include_recommendations'', JBool True)]"

text \<open>A page that holds a token and shows the dashboard, and a fresh run on it.\<close>

definition page_at_dashboard :: browser where
  "page_at_dashboard =
     \<lparr>localStorage = [''access_token'' \<mapsto> ''abc'', ''theme'' \<mapsto> ''dark''],
      sessionStorage = [''refresh_token'' \<mapsto> ''def''],
      location_href = ''/dashboard''\<rparr>"

definition fresh_world :: world where
  "fresh_world = \<lparr>page = page_at_dashboard, calls = 0, sleeps = []\<rparr>"

text \<open>
  A call of \<open>fetch\<close> that fails before any body is read: it rejects (a network error), or
  its response has a status outside 200 to 299.
\<close>

definition failed_attempt :: "js_error + response \<Rightarrow> bool" where
  "failed_attempt a = (case a of Inl e \<Rightarrow> True | Inr r \<Rightarrow> \<not> ok r)"

text \<open>Options without headers.\<close>

definition no_headers :: "string \<rightharpoonup> string" where
  "no_headers = Map.empty"

section \<open>Properties of the metrics normalizer\<close>

lemma get_truthy: "truthy v \<Longrightarrow> get v k = Inr (js_prop v k)"
  by (cases v) (simp_all add: get_def)

lemma get_obj: "get (JObj kvs) k = Inr (js_prop (JObj kvs) k)"
  by (simp add: get_def)

lemma get_or_truthy: "truthy v \<Longrightarrow> get_or v k d = Inr (js_or (js_prop v k) d)"
  by (simp add: get_or_def get_truthy bnd_def)

lemma truthy_js_or: "truthy d \<Longrightarrow> truthy (js_or v d)"
  by (simp add: js_or_def)

lemma bnd_Inr: "bnd (Inr x) f = f x"
  by (simp add: bnd_def)

lemma basic_truthy: "truthy (js_or (js_prop (JObj kvs) ''basic_metrics'') (JObj []))"
  by (simp add: truthy_js_or)

lemma extract_security:
  "extractDashboardMetrics (JObj kvs) ''security'' =
     (let basic = js_or (js_prop (JObj kvs) ''basic_metrics'') (JObj []) in
      Inr (JObj [(''total_actions'', js_or (js_prop basic ''total_security_actions'') (JNum 0)),
                 (''critical_issues'', js_or (js_prop basic ''high_impact_actions'') (JNum 0)),
                 (''security_score'', js_or (js_prop (JObj kvs) ''security_score'') (JNum 0)),
                 (''working_hours'', js_or (js_prop basic ''estimated_working_hours'') (JNum 0)),
                 (''risk_level'', js_or (js_prop basic ''risk_level'') (JStr ''Unknown''))]))"
  using basic_truthy [of kvs]
  by (simp add: extractDashboardMetrics_def get_or_truthy bnd_Inr Let_def)

lemma extract_performance:
  "extractDashboardMetrics (JObj kvs) ''performance'' =
     (let basic = js_or (js_prop (JObj kvs) ''basic_metrics'') (JObj []) in
      Inr (JObj [(''total_actions'', js_or (js_prop basic ''total_performance_actions'') (JNum 0)),
                 (''critical_optimizations'', js_or (js_prop basic ''high_impact_optimizations'') (JNum 0)),
                 (''performance_score'', js_or (js_prop (JObj kvs) ''performance_score'') (JNum 100)),
                 (''optimization_potential'', js_or (js_prop basic ''estimated_performance_improvement'') (JNum 0)),
                 (''working_hours'', js_or (js_prop basic ''estimated_working_hours'') (JNum 0))]))"
  using basic_truthy [of kvs]
  by (simp add: extractDashboardMetrics_def get_or_truthy bnd_Inr Let_def)

lemma extract_cost:
  "extractDashboardMetrics (JObj kvs) ''cost'' =
     (let basic = js_or (js_prop (JObj kvs) ''basic_metrics'') (JObj []) in
      Inr (JObj [(''total_actions'', js_or (js_prop basic ''total_cost_actions'') (JNum 0)),
                 (''monthly_savings'', js_or (js_prop basic ''estimated_monthly_savings'') (JNum 0)),
                 (''annual_savings'', js_or (js_prop basic ''estimated_annual_savings'') (JNum 0)),
                 (''working_hours'', js_or (js_prop basic ''estimated_working_hours'') (JNum 0)),
                 (''optimization_score'', js_or (js_prop (JObj kvs) ''optimization_score'') (JNum 100))]))"
  using basic_truthy [of kvs]
  by (simp add: extractDashboardMetrics_def get_or_truthy bnd_Inr Let_def)

lemma field_Inr_obj: "field (Inr (JObj kvs)) k = Inr (js_prop (JObj kvs) k)"
  by (simp add: field_def bnd_Inr get_obj)

text \<open>
  Claim C6. On the empty payload \<open>{}\<close> the security normalization returns exactly
  \<open>{total_actions: 0, critical_issues: 0, security_score: 0, working_hours: 0,
  risk_level: 'Unknown'}\<close>, and on every object payload, whatever its
  \<open>basic_metrics\<close> holds, it returns a metrics object and does not throw.
\<close>

theorem security_empty_payload_total:
  "extractDashboardMetrics (JObj []) ''security'' =
     Inr (JObj [(''total_actions'', JNum 0), (''critical_issues'', JNum 0),
                (''security_score'', JNum 0), (''working_hours'', JNum 0),
                (''risk_level'', JStr ''Unknown'')])
   \<and> (\<exists>m. extractDashboardMetrics (JObj kvs) ''security'' = Inr m)"
  by (simp add: extract_security js_or_def Let_def)

text \<open>
  Claim C3, as stated, fails for the cost type: on a payload without
  \<open>optimization_score\<close> the normalized \<open>optimization_score\<close> is not 0.
\<close>

theorem cost_default_score_counterexample:
  "\<not> (field (extractDashboardMetrics (JObj []) ''cost'') ''optimization_score'' = Inr (JNum 0))"
  by (simp add: extract_cost Let_def field_Inr_obj js_or_def)

text \<open>
  Claim C3, amended. When the score field is absent from the payload, the normalizer
  substitutes 0 for \<open>security_score\<close> (security), 100 for \<open>performance_score\<close>
  (performance) and 100 for \<open>optimization_score\<close> (cost).
\<close>

theorem default_scores:
  "(map_of kvs ''security_score'' = None \<longrightarrow>
      field (extractDashboardMetrics (JObj kvs) ''security'') ''security_score'' = Inr (JNum 0))
   \<and> (map_of kvs ''performance_score'' = None \<longrightarrow>
      field (extractDashboardMetrics (JObj kvs) ''performance'') ''performance_score'' = Inr (JNum 100))
   \<and> (map_of kvs ''optimization_score'' = None \<longrightarrow>
      field (extractDashboardMetrics (JObj kvs) ''cost'') ''optimization_score'' = Inr (JNum 100))"
  by (simp add: extract_security extract_performance extract_cost Let_def field_Inr_obj js_or_def)

text \<open>
  The amended claim C3 at a payload that has basic metrics and no score field.
\<close>

theorem default_scores_witness:
  "map_of [(''basic_metrics'', JObj [(''risk_level'', JStr ''High'')])] ''security_score'' = None
   \<and> map_of [(''basic_metrics'', JObj [(''risk_level'', JStr ''High'')])] ''performance_score'' = None
   \<and> map_of [(''basic_metrics'', JObj [(''risk_level'', JStr ''High'')])] ''optimization_score'' = None
   \<and> field (extractDashboardMetrics (JObj [(''basic_metrics'', JObj [(''risk_level'', JStr ''High'')])])
        ''security'') ''security_score'' = Inr (JNum 0)
   \<and> field (extractDashboardMetrics (JObj [(''basic_metrics'', JObj [(''risk_level'', JStr ''High'')])])
        ''performance'') ''performance_score'' = Inr (JNum 100)
   \<and> field (extractDashboardMetrics (JObj [(''basic_metrics'', JObj [(''risk_level'', JStr ''High'')])])
        ''cost'') ''optimization_score'' = Inr (JNum 100)"
  using default_scores [of "[(''basic_metrics'', JObj [(''risk_level'', JStr ''High'')])]"]
  by simp

lemma map_of_filter_key:
  "map_of (filter (\<lambda>p. fst p \<noteq> k) kvs) k' = (if k' = k then None else map_of kvs k')"
  by (induction kvs) auto

text \<open>
  Claim C9. A \<open>performance_score\<close> that is present and falsy (0, the empty string,
  \<open>null\<close>, \<open>false\<close>) is replaced by 100, and the whole result is the one of the
  payload without the field: the normalizer cannot tell the two apart.
\<close>

theorem falsy_performance_score_defaulted:
  assumes "map_of kvs ''performance_score'' = Some v" and "\<not> truthy v"
  shows "field (extractDashboardMetrics (JObj kvs) ''performance'') ''performance_score'' = Inr (JNum 100)
    \<and> extractDashboardMetrics (JObj kvs) ''performance'' =
        extractDashboardMetrics (JObj (filter (\<lambda>p. fst p \<noteq> ''performance_score'') kvs)) ''performance''"
  using assms
  by (simp add: extract_performance Let_def field_Inr_obj js_or_def map_of_filter_key)

text \<open>
  Claim C9 at the payload \<open>{performance_score: 0, basic_metrics: {}}\<close>.
\<close>

theorem falsy_performance_score_defaulted_witness:
  "map_of [(''performance_score'', JNum 0), (''basic_metrics'', JObj [])] ''performance_score'' = Some (JNum 0)
   \<and> \<not> truthy (JNum 0)
   \<and> field (extractDashboardMetrics (JObj [(''performance_score'', JNum 0), (''basic_metrics'', JObj [])])
        ''performance'') ''performance_score'' = Inr (JNum 100)"
proof -
  have present: "map_of [(''performance_score'', JNum 0), (''basic_metrics'', JObj [])]
      ''performance_score'' = Some (JNum 0)"
    by simp
  have falsy: "\<not> truthy (JNum 0)"
    by simp
  from falsy_performance_score_defaulted [OF present falsy]
  have "field (extractDashboardMetrics (JObj [(''performance_score'', JNum 0), (''basic_metrics'', JObj [])])
        ''performance'') ''performance_score'' = Inr (JNum 100)"
    by (rule conjunct1)
  with present falsy show ?thesis
    by blast
qed

section \<open>Properties of the validation gate\<close>

lemma js_trim_Nil: "js_trim [] = []"
  by (simp add: js_trim_def)

lemma validateReportConfig_string_title:
  assumes "js_prop (JObj kvs) ''title'' = JStr s"
  shows "validateReportConfig (JObj kvs) =
     Inr \<lparr>isValid = \<not> (length (js_trim s) < 3) \<and>
                     \<not> (\<not> truthy (js_prop (JObj kvs) ''type'') \<or>
                        \<not> js_includes [''comprehensive'', ''security'', ''performance'', ''cost'']
                             (js_prop (JObj kvs) ''type'')) \<and>
                     truthy (js_prop (JObj kvs) ''csvFileId''),
          errors = (if length (js_trim s) < 3 then [title_error] else []) @
                   (if \<not> truthy (js_prop (JObj kvs) ''type'') \<or>
                       \<not> js_includes [''comprehensive'', ''security'', ''performance'', ''cost'']
                            (js_prop (JObj kvs) ''type'')
                    then [type_error] else []) @
                   (if \<not> truthy (js_prop (JObj kvs) ''csvFileId'') then [file_error] else [])\<rparr>"
proof (cases "s = []")
  case True
  with assms show ?thesis
    by (simp add: validateReportConfig_def get_def bnd_Inr js_trim_Nil Let_def del: js_prop.simps)
next
  case False
  with assms show ?thesis
    by (simp add: validateReportConfig_def get_def bnd_Inr trim_call_def Let_def del: js_prop.simps)
qed

lemma validateReportConfig_falsy_title:
  assumes "\<not> truthy (js_prop (JObj kvs) ''title'')"
  shows "validateReportConfig (JObj kvs) =
     Inr \<lparr>isValid = False,
          errors = [title_error] @
                   (if \<not> truthy (js_prop (JObj kvs) ''type'') \<or>
                       \<not> js_includes [''comprehensive'', ''security'', ''performance'', ''cost'']
                            (js_prop (JObj kvs) ''type'')
                    then [type_error] else []) @
                   (if \<not> truthy (js_prop (JObj kvs) ''csvFileId'') then [file_error] else [])\<rparr>"
  using assms
  by (simp add: validateReportConfig_def get_def bnd_Inr Let_def del: js_prop.simps)

text \<open>
  Claim C7. For every configuration whose title is a string or is missing,
  \<open>validateReportConfig\<close> returns one result that holds every violated rule: when
  the title is missing or its trimmed length is below 3 the result is invalid and has the
  title error, whatever the other fields are; when the file reference is missing the
  result is invalid and has the file error, also next to other errors. Both implications
  are about the same result, so a configuration that breaks both rules gets both errors.
\<close>

theorem validateReportConfig_reports_all_violations:
  assumes "js_prop (JObj kvs) ''title'' = JStr s \<or> \<not> truthy (js_prop (JObj kvs) ''title'')"
  shows "\<exists>r. validateReportConfig (JObj kvs) = Inr r
    \<and> (\<not> truthy (js_prop (JObj kvs) ''title'') \<or> length (js_trim s) < 3 \<longrightarrow>
          \<not> isValid r \<and> title_error \<in> set (errors r))
    \<and> (\<not> truthy (js_prop (JObj kvs) ''csvFileId'') \<longrightarrow>
          \<not> isValid r \<and> file_error \<in> set (errors r))"
proof (cases "truthy (js_prop (JObj kvs) ''title'')")
  case False
  then show ?thesis
    by (simp add: validateReportConfig_falsy_title del: js_prop.simps)
next
  case True
  with assms have "js_prop (JObj kvs) ''title'' = JStr s"
    by blast
  then show ?thesis
    by (simp add: validateReportConfig_string_title js_trim_Nil del: js_prop.simps)
qed

text \<open>
  Claim C7 at the configuration \<open>{title: '  a ', type: 'cost'}\<close>: the trimmed title
  has length 1, no file is given, and the one result has both errors.
\<close>

theorem validateReportConfig_reports_all_violations_witness:
  "js_prop (JObj [(''title'', JStr ''  a ''), (''type'', JStr ''cost'')]) ''title'' = JStr ''  a ''
   \<and> length (js_trim ''  a '') < 3
   \<and> \<not> truthy (js_prop (JObj [(''title'', JStr ''  a ''), (''type'', JStr ''cost'')]) ''csvFileId'')
   \<and> (\<exists>r. validateReportConfig (JObj [(''title'', JStr ''  a ''), (''type'', JStr ''cost'')]) = Inr r
        \<and> \<not> isValid r \<and> title_error \<in> set (errors r) \<and> file_error \<in> set (errors r))"
proof -
  have short: "length (js_trim ''  a '') < 3"
    by (simp add: js_trim_def is_js_whitespace_def)
  have title: "js_prop (JObj [(''title'', JStr ''  a ''), (''type'', JStr ''cost'')]) ''title'' = JStr ''  a ''"
    by simp
  have nofile: "\<not> truthy (js_prop (JObj [(''title'', JStr ''  a ''), (''type'', JStr ''cost'')]) ''csvFileId'')"
    by simp
  from validateReportConfig_reports_all_violations [OF disjI1, OF title]
  obtain r where "validateReportConfig (JObj [(''title'', JStr ''  a ''), (''type'', JStr ''cost'')]) = Inr r"
    and "\<not> truthy (js_prop (JObj [(''title'', JStr ''  a ''), (''type'', JStr ''cost'')]) ''title'')
           \<or> length (js_trim ''  a '') < 3 \<longrightarrow>
          \<not> isValid r \<and> title_error \<in> set (errors r)"
    and "\<not> truthy (js_prop (JObj [(''title'', JStr ''  a ''), (''type'', JStr ''cost'')]) ''csvFileId'') \<longrightarrow>
          \<not> isValid r \<and> file_error \<in> set (errors r)"
    by blast
  with short title nofile show ?thesis
    by blast
qed

section \<open>Properties of the report submission\<close>

lemma flag_value_or_true: "flag_value v \<Longrightarrow> js_or v (JBool True) = JBool True"
  by (cases v) (simp_all add: flag_value_def js_or_def)

lemma js_or_true_not_false: "js_or v (JBool True) \<noteq> JBool False"
  by (cases v) (auto simp add: js_or_def)

lemma createReport_body_no_configuration:
  assumes "map_of kvs ''configuration'' = None"
  shows "createReport_body (JObj kvs) =
     Inr (JObj [(''title'', js_prop (JObj kvs) ''title''),
                (''description'', js_or (js_prop (JObj kvs) ''description'') (JStr [])),
                (''report_type'', js_or (js_prop (JObj kvs) ''type'') (js_prop (JObj kvs) ''report_type'')),
                (''csv_file'', js_or (js_prop (JObj kvs) ''csvFileId'') (js_prop (JObj kvs) ''csv_file'')),
                (''configuration'',
                   JObj [(''include_graphics'', js_or (js_prop (JObj kvs) ''includeGraphics'') (JBool True)),
                         (''include_detailed_tables'',
                            js_or (js_prop (JObj kvs) ''includeDetailedTables'') (JBool True)),
                         (''include_recommendations'',
                            js_or (js_prop (JObj kvs) ''includeRecommendations'') (JBool True))])])"
  using assms
  by (simp add: createReport_body_def or_else_def get_or_def get_obj bnd_Inr js_or_def)

text \<open>
  Claim C8. When \<open>reportData\<close> has no \<open>configuration\<close> property,
  \<open>apiService.createReport\<close> never sends \<open>false\<close> for an inclusion flag, and
  when the caller's three flags are booleans (or not given) the configuration sent is
  \<open>true\<close> for all three, whatever the flags were.
\<close>

theorem createReport_flags_forced_true:
  assumes "map_of kvs ''configuration'' = None"
  shows "\<exists>body. createReport_body (JObj kvs) = Inr body
    \<and> js_prop (js_prop body ''configuration'') ''include_graphics'' \<noteq> JBool False
    \<and> js_prop (js_prop body ''configuration'') ''include_detailed_tables'' \<noteq> JBool False
    \<and> js_prop (js_prop body ''configuration'') ''include_recommendations'' \<noteq> JBool False
    \<and> (flag_value (js_prop (JObj kvs) ''includeGraphics'') \<and>
        flag_value (js_prop (JObj kvs) ''includeDetailedTables'') \<and>
        flag_value (js_prop (JObj kvs) ''includeRecommendations'') \<longrightarrow>
        js_prop body ''configuration'' = flags_all_true)"
  using assms
  by (simp add: createReport_body_no_configuration js_or_true_not_false flag_value_or_true
      flags_all_true_def)

text \<open>
  Claim C8 at a submission with \<open>includeGraphics\<close> and
  \<open>includeDetailedTables\<close> set to \<open>false\<close>: the body still has all three flags
  \<open>true\<close>.
\<close>

theorem createReport_flags_forced_true_witness:
  "map_of [(''title'', JStr ''Audit''), (''includeGraphics'', JBool False),
           (''includeDetailedTables'', JBool False), (''includeRecommendations'', JBool True)]
      ''configuration'' = None
   \<and> (\<exists>body. createReport_body (JObj [(''title'', JStr ''Audit''), (''includeGraphics'', JBool False),
           (''includeDetailedTables'', JBool False), (''includeRecommendations'', JBool True)]) = Inr body
        \<and> js_prop body ''configuration'' = flags_all_true)"
proof -
  have absent: "map_of [(''title'', JStr ''Audit''), (''includeGraphics'', JBool False),
           (''includeDetailedTables'', JBool False), (''includeRecommendations'', JBool True)]
      ''configuration'' = None"
    by simp
  have flags: "flag_value (js_prop (JObj [(''title'', JStr ''Audit''), (''includeGraphics'', JBool False),
           (''includeDetailedTables'', JBool False), (''includeRecommendations'', JBool True)])
           ''includeGraphics'')
    \<and> flag_value (js_prop (JObj [(''title'', JStr ''Audit''), (''includeGraphics'', JBool False),
           (''includeDetailedTables'', JBool False), (''includeRecommendations'', JBool True)])
           ''includeDetailedTables'')
    \<and> flag_value (js_prop (JObj [(''title'', JStr ''Audit''), (''includeGraphics'', JBool False),
           (''includeDetailedTables'', JBool False), (''includeRecommendations'', JBool True)])
           ''includeRecommendations'')"
    by (simp add: flag_value_def)
  from createReport_flags_forced_true [OF absent] flags absent show ?thesis
    by blast
qed

section \<open>Properties of the polling loop\<close>

lemma every_call_fun: "every_call r = (\<lambda>x. r)"
  by (rule ext) (simp add: every_call_def)

lemma checkStatus_pending:
  assumes pend: "\<And>i. \<exists>rep st. getReport i = Inr rep \<and> get rep ''status'' = Inr st \<and>
                   st \<noteq> JStr ''completed'' \<and> st \<noteq> JStr ''failed''"
    and quiet: "\<And>f r. onStatusUpdate = Some f \<Longrightarrow> f r = None"
  shows "attempts \<le> maxAttempts \<Longrightarrow>
     checkStatus getReport onStatusUpdate maxAttempts attempts n ups =
       \<lparr>outcome = Rejected polling_timeout,
        fetches = Suc (n + (maxAttempts - attempts)),
        updates = ups @ (case onStatusUpdate of None \<Rightarrow> []
                   | Some f \<Rightarrow> map (\<lambda>i. projr (getReport i))
                                [n ..< Suc (n + (maxAttempts - attempts))])\<rparr>"
proof (induction "maxAttempts - attempts" arbitrary: attempts n ups)
  case 0
  from pend [of n] obtain rep st where rep: "getReport n = Inr rep"
    "get rep ''status'' = Inr st" "st \<noteq> JStr ''completed''" "st \<noteq> JStr ''failed''"
    by blast
  have cb: "(case onStatusUpdate of None \<Rightarrow> None | Some cb \<Rightarrow> cb rep) = None"
    using quiet by (cases onStatusUpdate) simp_all
  from 0 have "maxAttempts \<le> attempts" by simp
  with rep cb 0 show ?case
    by (subst checkStatus.simps) (simp add: polling_timeout_def split: option.split)
next
  case (Suc k)
  from pend [of n] obtain rep st where rep: "getReport n = Inr rep"
    "get rep ''status'' = Inr st" "st \<noteq> JStr ''completed''" "st \<noteq> JStr ''failed''"
    by blast
  have cb: "(case onStatusUpdate of None \<Rightarrow> None | Some cb \<Rightarrow> cb rep) = None"
    using quiet by (cases onStatusUpdate) simp_all
  from Suc.hyps(2) have lt: "\<not> maxAttempts \<le> attempts" and k: "k = maxAttempts - Suc attempts"
    and le: "Suc attempts \<le> maxAttempts"
    by simp_all
  have step: "checkStatus getReport onStatusUpdate maxAttempts attempts n ups =
      checkStatus getReport onStatusUpdate maxAttempts (Suc attempts) (Suc n)
        (case onStatusUpdate of None \<Rightarrow> ups | Some cb \<Rightarrow> ups @ [rep])"
    using rep cb lt by (subst checkStatus.simps) simp
  have idx: "Suc (Suc n + (maxAttempts - Suc attempts)) = Suc (n + (maxAttempts - attempts))"
    using le by simp
  have rng: "[n ..< Suc (n + (maxAttempts - attempts))] =
      n # [Suc n ..< Suc (n + (maxAttempts - attempts))]"
    by (simp add: upt_conv_Cons)
  show ?case
    unfolding step Suc.hyps(1) [OF k le] idx rng
    using rep(1) by (simp split: option.split)
qed

lemma pollReportStatus_pending:
  assumes "\<And>i. \<exists>rep st. getReport i = Inr rep \<and> get rep ''status'' = Inr st \<and>
                   st \<noteq> JStr ''completed'' \<and> st \<noteq> JStr ''failed''"
    and "\<And>f r. onStatusUpdate = Some f \<Longrightarrow> f r = None"
  shows "pollReportStatus getReport onStatusUpdate maxAttempts =
       \<lparr>outcome = Rejected polling_timeout,
        fetches = Suc maxAttempts,
        updates = (case onStatusUpdate of None \<Rightarrow> []
                   | Some f \<Rightarrow> map (\<lambda>i. projr (getReport i)) [0 ..< Suc maxAttempts])\<rparr>"
proof -
  have "checkStatus getReport onStatusUpdate maxAttempts 0 0 [] =
       \<lparr>outcome = Rejected polling_timeout,
        fetches = Suc (0 + (maxAttempts - 0)),
        updates = [] @ (case onStatusUpdate of None \<Rightarrow> []
                   | Some f \<Rightarrow> map (\<lambda>i. projr (getReport i))
                                [0 ..< Suc (0 + (maxAttempts - 0))])\<rparr>"
  proof (rule checkStatus_pending)
    show "\<exists>rep st. getReport i = Inr rep \<and> get rep ''status'' = Inr st \<and>
                   st \<noteq> JStr ''completed'' \<and> st \<noteq> JStr ''failed''" for i
      by (rule assms(1))
    show "f r = None" if "onStatusUpdate = Some f" for f r
      using that by (rule assms(2))
    show "0 \<le> maxAttempts"
      by simp
  qed
  then show ?thesis
    by (simp add: pollReportStatus_def split: option.split)
qed

text \<open>
  Claim C1 on the code. With \<open>maxAttempts = 60\<close> and a report that stays
  \<open>processing\<close>, \<open>pollReportStatus\<close> rejects with the polling timeout after 61
  fetches, one more than \<open>maxAttempts\<close>: the counter is tested before it is
  incremented, so the test first succeeds on the 61st poll.
\<close>

theorem pollReportStatus_processing_61_fetches:
  "pollReportStatus (every_call (Inr (JObj [(''status'', JStr ''processing'')]))) None 60 =
     \<lparr>outcome = Rejected polling_timeout, fetches = 61, updates = []\<rparr>"
  using pollReportStatus_pending [of "every_call (Inr (JObj [(''status'', JStr ''processing'')]))" None 60]
  by (simp add: every_call_def get_obj)

text \<open>
  Claim C10. When every poll returns a report whose status is \<open>cancelled\<close>, and the
  callback does not throw, \<open>pollReportStatus\<close> hands every polled report to the
  callback, keeps polling until the attempt bound is used up (\<open>maxAttempts + 1\<close>
  fetches) and then rejects with the polling timeout.
\<close>

theorem pollReportStatus_cancelled_polls_on:
  assumes "\<forall>i. \<exists>rep. getReport i = Inr rep \<and> get rep ''status'' = Inr (JStr ''cancelled'')"
    and "\<forall>r. cb r = None"
  shows "pollReportStatus getReport (Some cb) maxAttempts =
       \<lparr>outcome = Rejected polling_timeout,
        fetches = Suc maxAttempts,
        updates = map (\<lambda>i. projr (getReport i)) [0 ..< Suc maxAttempts]\<rparr>"
proof -
  have "pollReportStatus getReport (Some cb) maxAttempts =
       \<lparr>outcome = Rejected polling_timeout,
        fetches = Suc maxAttempts,
        updates = (case Some cb of None \<Rightarrow> []
                   | Some f \<Rightarrow> map (\<lambda>i. projr (getReport i)) [0 ..< Suc maxAttempts])\<rparr>"
  proof (rule pollReportStatus_pending)
    fix i
    from assms(1) obtain rep where "getReport i = Inr rep"
      and "get rep ''status'' = Inr (JStr ''cancelled'')"
      by blast
    then show "\<exists>rep st. getReport i = Inr rep \<and> get rep ''status'' = Inr st \<and>
                   st \<noteq> JStr ''completed'' \<and> st \<noteq> JStr ''failed''"
      by simp
  next
    fix f r
    assume "Some cb = Some f"
    with assms(2) show "f r = None"
      by simp
  qed
  then show ?thesis
    by simp
qed

text \<open>
  Claim C10 with \<open>maxAttempts = 2\<close>: three polls, three callback calls, then the
  timeout.
\<close>

theorem pollReportStatus_cancelled_polls_on_witness:
  "(\<forall>i. \<exists>rep. every_call (Inr (JObj [(''status'', JStr ''cancelled'')])) (i :: nat) = Inr rep
          \<and> get rep ''status'' = Inr (JStr ''cancelled''))
   \<and> (\<forall>r. every_call None (r :: jsval) = (None :: js_error option))
   \<and> pollReportStatus (every_call (Inr (JObj [(''status'', JStr ''cancelled'')])))
        (Some (every_call None)) 2 =
       \<lparr>outcome = Rejected polling_timeout,
        fetches = 3,
        updates = [JObj [(''status'', JStr ''cancelled'')], JObj [(''status'', JStr ''cancelled'')],
                   JObj [(''status'', JStr ''cancelled'')]]\<rparr>"
proof -
  have polls: "\<forall>i. \<exists>rep. every_call (Inr (JObj [(''status'', JStr ''cancelled'')])) (i :: nat) = Inr rep
          \<and> get rep ''status'' = Inr (JStr ''cancelled'')"
    by (simp add: every_call_def get_obj)
  have quiet: "\<forall>r. every_call None (r :: jsval) = (None :: js_error option)"
    by (simp add: every_call_def)
  have range: "[0 ..< Suc 2] = [0, 1, 2]"
    by (simp add: numeral_2_eq_2)
  have "pollReportStatus (every_call (Inr (JObj [(''status'', JStr ''cancelled'')])))
        (Some (every_call None)) 2 =
       \<lparr>outcome = Rejected polling_timeout,
        fetches = 3,
        updates = [JObj [(''status'', JStr ''cancelled'')], JObj [(''status'', JStr ''cancelled'')],
                   JObj [(''status'', JStr ''cancelled'')]]\<rparr>"
    unfolding pollReportStatus_cancelled_polls_on [OF polls quiet, of 2] range
    by (simp add: every_call_def)
  with polls quiet show ?thesis
    by blast
qed

section \<open>Properties of the transport\<close>

lemma handleApiResponse_not_ok:
  assumes "\<not> ok r"
  shows "\<exists>e. fst (handleApiResponse r b) = Inl e"
  using assms
  by (auto simp add: handleApiResponse_def Let_def bnd_def or_else_def get_def
      split: sum.splits)

lemma request_fails:
  assumes "\<And>r. fetch n = Inr r \<Longrightarrow> \<not> ok r"
  shows "\<exists>e. fst (case fetch n of Inl error \<Rightarrow> (Inl error, b)
                 | Inr response \<Rightarrow> handleApiResponse response b) = Inl e"
proof (cases "fetch n")
  case (Inl e)
  then show ?thesis by simp
next
  case (Inr r)
  with assms have "\<not> ok r" by simp
  from handleApiResponse_not_ok [OF this] Inr show ?thesis by simp
qed

lemma fetchWithRetry_all_fail:
  assumes fails: "\<And>i r. fetch i = Inr r \<Longrightarrow> \<not> ok r"
  shows "retryCount \<le> RETRY_ATTEMPTS \<Longrightarrow>
     (\<exists>e. fst (fetchWithRetry fetch retryCount w) = Inl e)
     \<and> calls (snd (fetchWithRetry fetch retryCount w)) = Suc (calls w + (RETRY_ATTEMPTS - retryCount))
     \<and> sleeps (snd (fetchWithRetry fetch retryCount w)) =
         sleeps w @ map (\<lambda>k. RETRY_DELAY * 2 ^ k) [retryCount ..< RETRY_ATTEMPTS]"
proof (induction "RETRY_ATTEMPTS - retryCount" arbitrary: retryCount w)
  case 0
  then have last: "\<not> retryCount < RETRY_ATTEMPTS" by simp
  from request_fails [of fetch "calls w" "page w"] fails
  obtain e where e: "fst (case fetch (calls w) of Inl error \<Rightarrow> (Inl error, page w)
                 | Inr response \<Rightarrow> handleApiResponse response (page w)) = Inl e"
    by blast
  from last e 0 show ?case
    by (subst (1 2 3) fetchWithRetry.simps) (simp add: Let_def)
next
  case (Suc k)
  then have more: "retryCount < RETRY_ATTEMPTS" and k: "k = RETRY_ATTEMPTS - Suc retryCount"
    and le: "Suc retryCount \<le> RETRY_ATTEMPTS"
    by simp_all
  from request_fails [of fetch "calls w" "page w"] fails
  obtain e where e: "fst (case fetch (calls w) of Inl error \<Rightarrow> (Inl error, page w)
                 | Inr response \<Rightarrow> handleApiResponse response (page w)) = Inl e"
    by blast
  define w2 where "w2 = w\<lparr>page := snd (case fetch (calls w) of Inl error \<Rightarrow> (Inl error, page w)
                 | Inr response \<Rightarrow> handleApiResponse response (page w)),
               calls := Suc (calls w),
               sleeps := sleeps w @ [RETRY_DELAY * 2 ^ retryCount]\<rparr>"
  have step: "fetchWithRetry fetch retryCount w = fetchWithRetry fetch (Suc retryCount) w2"
    using more e by (subst fetchWithRetry.simps) (simp add: Let_def w2_def RETRY_EXPONENTIAL_def)
  have rng: "[retryCount ..< RETRY_ATTEMPTS] = retryCount # [Suc retryCount ..< RETRY_ATTEMPTS]"
    using more by (simp add: upt_conv_Cons)
  have cnt: "Suc (calls w2 + (RETRY_ATTEMPTS - Suc retryCount)) = Suc (calls w + (RETRY_ATTEMPTS - retryCount))"
    using le by (simp add: w2_def)
  from Suc.hyps(1) [OF k le, of w2] show ?case
    unfolding step rng cnt [symmetric]
    by (simp add: w2_def)
qed

text \<open>
  Claim C4, as stated, fails: a request that is answered 404 on every call is fetched
  four times, with backoff delays of 1, 2 and 4 seconds, not once.
\<close>

theorem fetchWithRetry_404_counterexample:
  "calls (snd (fetchWithRetry (every_call (Inr \<lparr>status = 404, body = None\<rparr>)) 0 fresh_world)) = 4
   \<and> sleeps (snd (fetchWithRetry (every_call (Inr \<lparr>status = 404, body = None\<rparr>)) 0 fresh_world))
       = [1000, 2000, 4000]
   \<and> calls (snd (fetchWithRetry (every_call (Inr \<lparr>status = 404, body = None\<rparr>)) 0 fresh_world)) \<noteq> 1"
  using fetchWithRetry_all_fail [of "every_call (Inr \<lparr>status = 404, body = None\<rparr>)" 0 fresh_world]
  by (simp add: every_call_def ok_def RETRY_ATTEMPTS_def RETRY_DELAY_def fresh_world_def
      upt_conv_Cons numeral_3_eq_3)

text \<open>
  Claim C4, amended. \<open>fetchWithRetry\<close> retries every failure alike: when every call
  fails, by a network error or by a response outside 200 to 299 (400, 403, 404, 413, 422
  as well as 429 and 5xx), it performs exactly \<open>1 + 3 = 4\<close> fetches, waits 1000, 2000
  and 4000 ms between them and then rejects.
\<close>

theorem fetchWithRetry_retries_every_failure:
  assumes "\<forall>i. failed_attempt (fetch i)"
  shows "(\<exists>e. fst (fetchWithRetry fetch 0 w) = Inl e)
     \<and> calls (snd (fetchWithRetry fetch 0 w)) = calls w + 4
     \<and> sleeps (snd (fetchWithRetry fetch 0 w)) = sleeps w @ [1000, 2000, 4000]"
proof -
  have "fetch i = Inr r \<Longrightarrow> \<not> ok r" for i r
    using assms [rule_format, of i] by (simp add: failed_attempt_def)
  from fetchWithRetry_all_fail [of fetch 0 w, OF this] show ?thesis
    by (simp add: RETRY_ATTEMPTS_def RETRY_DELAY_def upt_conv_Cons numeral_3_eq_3)
qed

text \<open>
  The amended claim C4 on a backend that answers 422 on every call.
\<close>

theorem fetchWithRetry_retries_every_failure_witness:
  "(\<forall>i :: nat. failed_attempt (every_call (Inr \<lparr>status = 422, body = None\<rparr>) i))
   \<and> (\<exists>e. fst (fetchWithRetry (every_call (Inr \<lparr>status = 422, body = None\<rparr>)) 0 fresh_world) = Inl e)
   \<and> calls (snd (fetchWithRetry (every_call (Inr \<lparr>status = 422, body = None\<rparr>)) 0 fresh_world)) = 4
   \<and> sleeps (snd (fetchWithRetry (every_call (Inr \<lparr>status = 422, body = None\<rparr>)) 0 fresh_world))
       = [1000, 2000, 4000]"
proof -
  have fails: "\<forall>i :: nat. failed_attempt (every_call (Inr \<lparr>status = 422, body = None\<rparr>) i)"
    by (simp add: every_call_def failed_attempt_def ok_def)
  from fetchWithRetry_retries_every_failure [OF fails, of fresh_world] fails show ?thesis
    by (simp add: fresh_world_def)
qed

text \<open>
  Claim C5, as stated, fails: on a 401 response \<open>fetchWithAuth\<close> leaves the page at
  \<open>/\<close> where it was at \<open>/dashboard\<close>, and the page state is not the one it
  started from.
\<close>

theorem fetchWithAuth_401_navigates:
  "location_href (snd (fetchWithAuth ''http://localhost:8000/api''
       (every_call (Inr \<lparr>status = 401, body = None\<rparr>)) ''/reports/'' no_headers page_at_dashboard))
     = ''/''
   \<and> location_href page_at_dashboard = ''/dashboard''
   \<and> snd (fetchWithAuth ''http://localhost:8000/api''
       (every_call (Inr \<lparr>status = 401, body = None\<rparr>)) ''/reports/'' no_headers page_at_dashboard)
     \<noteq> page_at_dashboard"
  by (simp add: fetchWithAuth_def every_call_def page_at_dashboard_def Let_def)

text \<open>
  Claim C5, amended. On a response with status 401, \<open>fetchWithAuth\<close> and
  \<open>handleApiResponse\<close> each signal their session-expired error and change the page
  in exactly this way: \<open>access_token\<close> and \<open>refresh_token\<close> are removed from
  \<open>localStorage\<close> and \<open>sessionStorage\<close>, and \<open>window.location.href\<close> is set to
  \<open>/\<close>; every other stored item is kept.
\<close>

theorem unauthorized_clears_session_and_redirects:
  assumes "status response = 401" and "\<forall>req. fetch req = Inr response"
  shows "fetchWithAuth BASE_URL fetch url options_headers b =
      (Inl session_expired,
       b\<lparr>localStorage := (localStorage b)(''access_token'' := None, ''refresh_token'' := None),
         sessionStorage := (sessionStorage b)(''access_token'' := None, ''refresh_token'' := None),
         location_href := ''/''\<rparr>)
    \<and> handleApiResponse response b =
      (Inl session_expired_login,
       b\<lparr>localStorage := (localStorage b)(''access_token'' := None, ''refresh_token'' := None),
         sessionStorage := (sessionStorage b)(''access_token'' := None, ''refresh_token'' := None),
         location_href := ''/''\<rparr>)"
  using assms
  by (simp add: fetchWithAuth_def handleApiResponse_def removeItem_def ok_def Let_def)

text \<open>
  The amended claim C5 on the dashboard page, with a backend that answers 401.
\<close>

theorem unauthorized_clears_session_and_redirects_witness:
  "status \<lparr>status = 401, body = None\<rparr> = 401
   \<and> (\<forall>req :: request. every_call (Inr \<lparr>status = 401, body = None\<rparr>) req = Inr \<lparr>status = 401, body = None\<rparr>)
   \<and> fst (fetchWithAuth ''http://localhost:8000/api'' (every_call (Inr \<lparr>status = 401, body = None\<rparr>))
        ''/reports/'' no_headers page_at_dashboard) = Inl session_expired
   \<and> fst (handleApiResponse \<lparr>status = 401, body = None\<rparr> page_at_dashboard) = Inl session_expired_login
   \<and> location_href (snd (handleApiResponse \<lparr>status = 401, body = None\<rparr> page_at_dashboard)) = ''/''"
proof -
  have unauthorized: "status \<lparr>status = 401, body = None\<rparr> = 401"
    by simp
  have always: "\<forall>req :: request. every_call (Inr \<lparr>status = 401, body = None\<rparr>) req
      = Inr \<lparr>status = 401, body = None\<rparr>"
    by (simp add: every_call_def)
  from unauthorized_clears_session_and_redirects [OF unauthorized always,
      of "''http://localhost:8000/api''" "''/reports/''" no_headers page_at_dashboard]
    unauthorized always
  show ?thesis
    by simp
qed

section \<open>Properties of the batch metrics fetch\<close>

lemma loadSpecializedStats_unfold:
  "loadSpecializedStats service =
     (let put = (\<lambda>stats t. case method_call service ''getAnalyticsForType'' t of
                    Inr typeStats \<Rightarrow> stats(t \<mapsto> typeStats)
                  | Inl error \<Rightarrow> stats(t \<mapsto> JNull))
      in put (put (put Map.empty ''security'') ''performance'') ''cost'')"
  by (simp add: loadSpecializedStats_def)

lemma getAnalyticsForType_undefined:
  "reportsService impl ''getAnalyticsForType'' = None"
  by (simp add: reportsService_def ReportsService_methods_def)

lemma getAnalyticsForType_throws:
  "method_call (reportsService impl) ''getAnalyticsForType'' t = Inl TypeError"
  by (simp add: method_call_def getAnalyticsForType_undefined)

text \<open>
  Claim C2 on the code. \<open>ReportsService\<close> defines no method
  \<open>getAnalyticsForType\<close>, so the call in \<open>loadSpecializedStats\<close> throws a TypeError
  for each of the three types before any request is sent; each \<open>catch\<close> stores
  \<open>null\<close>. Whatever the methods of the service do and whatever the backend would
  answer, the stats map holds \<open>null\<close> for \<open>security\<close>, \<open>performance\<close> and
  \<open>cost\<close> alike.
\<close>

theorem loadSpecializedStats_all_null:
  "loadSpecializedStats (reportsService impl) ''security'' = Some JNull
   \<and> loadSpecializedStats (reportsService impl) ''performance'' = Some JNull
   \<and> loadSpecializedStats (reportsService impl) ''cost'' = Some JNull"
  by (simp add: loadSpecializedStats_unfold getAnalyticsForType_throws)

end
